theory Spec2Isabelle
  imports Main "HOL-Library.AList"
begin

section \<open>Errors and outcomes\<close>

text \<open>
  The exceptions the two scripts can meet.  \<open>KeyError\<close> carries the missing key,
  \<open>FileNotFoundError\<close> the path; \<open>OtherError\<close> stands for whatever a scope body or a
  parser of the standard library raises.
\<close>

datatype error =
  KeyError string
  | TypeError string
  | FileNotFoundError string
  | OtherError string

text \<open>Sequencing of fallible steps: the first exception ends the computation.\<close>

definition and_then :: "error + 'a \<Rightarrow> ('a \<Rightarrow> error + 'b) \<Rightarrow> error + 'b" where
  "and_then r f = (case r of Inl e \<Rightarrow> Inl e | Inr x \<Rightarrow> f x)"

section \<open>The contributor synchronisation script\<close>

subsection \<open>Contributor\<close>

text \<open>
  The dataclass \<open>Contributor\<close>: three string fields and an optional ORCID whose default
  is \<open>None\<close>.  The dataclass equality compares the four fields, which is the equality
  of the record.
\<close>

record Contributor =
  last_names :: string
  first_names :: string
  affiliation :: string
  orcid :: "string option"

text \<open>
  A person entry of a citation file as the YAML loader hands it over: a dictionary from
  field names to strings, in the order of the file.
\<close>

type_synonym citation = "(string \<times> string) list"

text \<open>\<open>dict.pop(key)\<close>: the value and the dictionary without the key, or \<open>KeyError\<close>.\<close>

definition pop :: "string \<Rightarrow> citation \<Rightarrow> error + (string \<times> citation)" where
  "pop k d = (case map_of d k of
                None \<Rightarrow> Inl (KeyError k)
              | Some v \<Rightarrow> Inr (v, AList.delete k d))"

text \<open>
  The call \<open>cls(last_names=..., first_names=..., **citation)\<close> of the generated
  constructor.  A keyword that is not one of the two remaining fields (among them a second
  \<open>last_names\<close> or \<open>first_names\<close>) is a \<open>TypeError\<close>, and so is a missing
  \<open>affiliation\<close>; \<open>orcid\<close> keeps its default \<open>None\<close> when it is not passed.
\<close>

definition cls :: "string \<Rightarrow> string \<Rightarrow> citation \<Rightarrow> error + Contributor" where
  "cls ln fn kwargs =
     (if list_ex (\<lambda>k. k \<noteq> ''affiliation'' \<and> k \<noteq> ''orcid'') (map fst kwargs)
      then Inl (TypeError ''unexpected keyword argument'')
      else case map_of kwargs ''affiliation'' of
             None \<Rightarrow> Inl (TypeError ''missing required argument'')
           | Some a \<Rightarrow>
               Inr \<lparr>last_names = ln, first_names = fn, affiliation = a,
                    orcid = map_of kwargs ''orcid''\<rparr>)"

definition from_citation_author :: "citation \<Rightarrow> error + Contributor" where
  "from_citation_author citation =
     and_then (pop ''family-names'' citation) (\<lambda>(ln, citation1).
     and_then (pop ''given-names'' citation1) (\<lambda>(fn, citation2).
     cls ln fn citation2))"

text \<open>\<open>str.lstrip(chars)\<close>: drops the leading characters that occur in \<open>chars\<close>.\<close>

definition lstrip :: "string \<Rightarrow> string \<Rightarrow> string" where
  "lstrip chars s = dropWhile (\<lambda>c. List.member chars c) s"

text \<open>
  \<open>as_zenodo_creator\<close> builds a dictionary with the keys \<open>name\<close> and \<open>affiliation\<close>,
  and the key \<open>orcid\<close> when the ORCID is neither \<open>None\<close> nor the empty string.
\<close>

definition as_zenodo_creator :: "Contributor \<Rightarrow> (string \<times> string) list" where
  "as_zenodo_creator self =
     (let ret = [(''name'', first_names self @ '' '' @ last_names self),
                 (''affiliation'', affiliation self)]
      in case orcid self of
           None \<Rightarrow> ret
         | Some oid \<Rightarrow>
             if oid = [] then ret
             else AList.update ''orcid'' (lstrip ''https://orcid.org/'' oid) ret)"

subsection \<open>The merge\<close>

text \<open>The values of a JSON document, an object keeping the order of its keys.\<close>

datatype json =
  JNull
  | JBool bool
  | JNum int
  | JStr string
  | JArr "json list"
  | JObj "(string \<times> json) list"

definition json_of_creator :: "(string \<times> string) list \<Rightarrow> json" where
  "json_of_creator d = JObj (map (\<lambda>(k, v). (k, JStr v)) d)"

text \<open>
  The list comprehensions over the loaded entries: the first entry whose construction
  raises ends the comprehension with that exception.
\<close>

fun from_citation_authors :: "citation list \<Rightarrow> error + Contributor list" where
  "from_citation_authors [] = Inr []"
| "from_citation_authors (a # as) =
     and_then (from_citation_author a) (\<lambda>c.
     and_then (from_citation_authors as) (\<lambda>cs. Inr (c # cs)))"

text \<open>
  Lines 59 and 60 of the script: the two item assignments on the loaded metadata.  They
  need a dictionary; any other JSON value raises \<open>TypeError\<close>.
\<close>

definition creators_of :: "Contributor list \<Rightarrow> json" where
  "creators_of authors = JArr (map (\<lambda>a. json_of_creator (as_zenodo_creator a)) authors)"

definition contributors_of :: "Contributor list \<Rightarrow> Contributor list \<Rightarrow> json" where
  "contributors_of authors contributors =
     JArr (map (\<lambda>c. json_of_creator (as_zenodo_creator c))
            (filter (\<lambda>c. \<not> List.member authors c) contributors))"

definition merge :: "Contributor list \<Rightarrow> Contributor list \<Rightarrow> json \<Rightarrow> error + json" where
  "merge authors contributors zenodo =
     (case zenodo of
        JObj z \<Rightarrow>
          Inr (JObj (AList.update ''contributors'' (contributors_of authors contributors)
                      (AList.update ''creators'' (creators_of authors) z)))
      | _ \<Rightarrow> Inl (TypeError ''object does not support item assignment''))"

subsection \<open>The command\<close>

text \<open>
  What \<open>sync\<close> touches of the outside world: the files of the working directory, by
  name, and the standard output.  Strings are byte strings, so \<open>encode('utf-8')\<close> is the
  identity.
\<close>

record world =
  files :: "string \<rightharpoonup> string"
  stdout :: string

text \<open>\<open>open(name, 'rb')\<close> followed by \<open>read()\<close>.\<close>

definition open_rb :: "world \<Rightarrow> string \<Rightarrow> error + string" where
  "open_rb w name = (case files w name of
                       None \<Rightarrow> Inl (FileNotFoundError name)
                     | Some b \<Rightarrow> Inr b)"

text \<open>\<open>d[key]\<close> on a dictionary.\<close>

definition subscript :: "(string \<times> 'a) list \<Rightarrow> string \<Rightarrow> error + 'a" where
  "subscript d k = (case map_of d k of None \<Rightarrow> Inl (KeyError k) | Some v \<Rightarrow> Inr v)"

text \<open>
  The loaded citation file, as far as the script reads it: the top-level keys that hold
  lists of person entries.
\<close>

type_synonym cff = "(string \<times> citation list) list"

text \<open>
  Lines 45 to 60.  The YAML loader and \<open>json.loads\<close> belong to libraries and are
  parameters: \<open>load\<close> and \<open>loads\<close> parse a file's bytes or raise.
\<close>

definition merged_record ::
  "(string \<Rightarrow> error + cff) \<Rightarrow> (string \<Rightarrow> error + json) \<Rightarrow> world \<Rightarrow> error + json" where
  "merged_record load loads w =
     and_then (open_rb w ''CITATION.cff'') (\<lambda>b1.
     and_then (load b1) (\<lambda>citation1.
     and_then (subscript citation1 ''authors'') (\<lambda>as.
     and_then (from_citation_authors as) (\<lambda>authors.
     and_then (open_rb w ''contributors.yaml'') (\<lambda>b2.
     and_then (load b2) (\<lambda>citation2.
     and_then (subscript citation2 ''contributors'') (\<lambda>cs.
     and_then (from_citation_authors cs) (\<lambda>contributors.
     and_then (open_rb w ''.zenodo.json'') (\<lambda>b3.
     and_then (loads b3) (\<lambda>zenodo.
     merge authors contributors zenodo))))))))))"

text \<open>
  Lines 61 to 65.  \<open>dumps indent sort_keys\<close> is \<open>json.dumps\<close> with these two keyword
  arguments; \<open>print\<close> appends a line feed.  The result is the exception that left the
  command, if any, and the world it leaves behind.
\<close>

definition sync ::
  "(string \<Rightarrow> error + cff) \<Rightarrow> (string \<Rightarrow> error + json) \<Rightarrow> (nat \<Rightarrow> bool \<Rightarrow> json \<Rightarrow> string) \<Rightarrow>
   bool \<Rightarrow> world \<Rightarrow> error option \<times> world" where
  "sync load loads dumps in_place w =
     (case merged_record load loads w of
        Inl e \<Rightarrow> (Some e, w)
      | Inr zenodo \<Rightarrow>
          if in_place
          then (None, w\<lparr>files := (files w)(''.zenodo.json'' \<mapsto> dumps 4 True zenodo)\<rparr>)
          else (None, w\<lparr>stdout := stdout w @ dumps 4 True zenodo @ [CHR 0x0A]\<rparr>))"

section \<open>The utilities of flow.util.misc\<close>

subsection \<open>Context managers\<close>

text \<open>
  A block of statements run on a state: the exception it raised, if any, and the state
  it left.
\<close>

type_synonym 's block = "'s \<Rightarrow> error option \<times> 's"

text \<open>
  A generator decorated with \<open>contextmanager\<close> and used in a \<open>with\<close> statement.
  \<open>enter\<close> is the generator's code up to its \<open>yield\<close>: it raises, or it suspends with
  what the generator remembers (where it stopped and its local variables).  The body of
  the \<open>with\<close> statement runs next.  \<open>exit\<close> is what the generator runs when it is
  resumed, here in all three generators the same code whether the body returned or raised
  (a \<open>finally\<close> clause, or nothing).  An exception of the body propagates unless the
  exit code raises one of its own.
\<close>

definition contextmanager ::
  "('s \<Rightarrow> (error + 't) \<times> 's) \<Rightarrow> ('t \<Rightarrow> 's block) \<Rightarrow> 's block \<Rightarrow> 's block" where
  "contextmanager enter exit body s =
     (case enter s of
        (Inl e, s1) \<Rightarrow> (Some e, s1)
      | (Inr t, s1) \<Rightarrow>
          (case body s1 of (r, s2) \<Rightarrow>
             (case exit t s2 of
                (None, s3) \<Rightarrow> (r, s3)
              | (Some e, s3) \<Rightarrow> (Some e, s3))))"

subsection \<open>The process state\<close>

record os_state =
  environ :: "string \<rightharpoonup> string"
  cwd :: string

definition setenv :: "string \<Rightarrow> string \<Rightarrow> os_state \<Rightarrow> os_state" where
  "setenv k v s = s\<lparr>environ := (environ s)(k \<mapsto> v)\<rparr>"

text \<open>\<open>del os.environ[k]\<close> raises \<open>KeyError\<close> when the variable is not set.\<close>

definition delenv :: "string \<Rightarrow> os_state block" where
  "delenv k s = (case environ s k of
                   None \<Rightarrow> (Some (KeyError k), s)
                 | Some _ \<Rightarrow> (None, s\<lparr>environ := (environ s)(k := None)\<rparr>))"

text \<open>\<open>os.path.isabs\<close> of \<open>posixpath\<close>: the path starts with a slash.\<close>

definition isabs :: "string \<Rightarrow> bool" where
  "isabs p = (case p of [] \<Rightarrow> False | c # _ \<Rightarrow> c = CHR ''/'')"

text \<open>\<open>str.split(sep)\<close> and \<open>sep.join\<close> for a separator of one character.\<close>

fun str_split :: "char \<Rightarrow> string \<Rightarrow> string list" where
  "str_split sep [] = [[]]"
| "str_split sep (c # cs) =
     (if c = sep then [] # str_split sep cs
      else case str_split sep cs of
             [] \<Rightarrow> [[c]]
           | w # ws \<Rightarrow> (c # w) # ws)"

fun str_join :: "char \<Rightarrow> string list \<Rightarrow> string" where
  "str_join sep [] = []"
| "str_join sep [w] = w"
| "str_join sep (w # ws) = w @ sep # str_join sep ws"

subsection \<open>add_path_to_environment_pythonpath\<close>

text \<open>
  The loop \<open>for path_ in pythonpath\<close> of lines 133 to 136.  \<open>pythonpath\<close> is the
  string read from the environment, and iterating over a string yields its characters,
  each a string of length one.  The result says whether the loop reached its
  \<open>yield\<close>.  \<open>realpath\<close> is \<open>os.path.realpath\<close>, which reads the file system
  and is a parameter.
\<close>

fun scan_pythonpath :: "(string \<Rightarrow> string) \<Rightarrow> string \<Rightarrow> string \<Rightarrow> bool" where
  "scan_pythonpath realpath path [] = False"
| "scan_pythonpath realpath path (c # cs) =
     (if isabs [c] \<and> realpath [c] = path then True
      else scan_pythonpath realpath path cs)"

text \<open>
  Where the generator is suspended: at the \<open>yield\<close> of line 135, at that of line 141
  (remembering the local \<open>pythonpath\<close>), or at that of line 149.
\<close>

datatype pythonpath_yield = Already_There | Prepended string | Was_Unset

definition add_path_enter ::
  "(string \<Rightarrow> string) \<Rightarrow> string \<Rightarrow> os_state \<Rightarrow> (error + pythonpath_yield) \<times> os_state" where
  "add_path_enter realpath path0 s =
     (let path = realpath path0;
          pythonpath = environ s ''PYTHONPATH'';
          unset = (Inr Was_Unset, setenv ''PYTHONPATH'' path s)
      in case pythonpath of
           None \<Rightarrow> unset
         | Some [] \<Rightarrow> unset
         | Some (c # cs) \<Rightarrow>
             if scan_pythonpath realpath path (c # cs) then (Inr Already_There, s)
             else (Inr (Prepended (c # cs)),
                   setenv ''PYTHONPATH''
                     (str_join (CHR '':'') (path # str_split (CHR '':'') (c # cs))) s))"

definition add_path_exit :: "pythonpath_yield \<Rightarrow> os_state block" where
  "add_path_exit t s =
     (case t of
        Already_There \<Rightarrow> (None, s)
      | Prepended pythonpath \<Rightarrow> (None, setenv ''PYTHONPATH'' pythonpath s)
      | Was_Unset \<Rightarrow> delenv ''PYTHONPATH'' s)"

definition add_path_to_environment_pythonpath ::
  "(string \<Rightarrow> string) \<Rightarrow> string \<Rightarrow> os_state block \<Rightarrow> os_state block" where
  "add_path_to_environment_pythonpath realpath path =
     contextmanager (add_path_enter realpath path) add_path_exit"

definition add_cwd_to_environment_pythonpath ::
  "(string \<Rightarrow> string) \<Rightarrow> os_state block \<Rightarrow> os_state block" where
  "add_cwd_to_environment_pythonpath realpath body s =
     add_path_to_environment_pythonpath realpath (cwd s) body s"

subsection \<open>switch_to_directory\<close>

text \<open>
  \<open>os.chdir\<close>: \<open>isdir\<close> says which paths name a directory the process can enter; for
  any other path the call raises and the working directory stays.
\<close>

definition chdir :: "(string \<Rightarrow> bool) \<Rightarrow> string \<Rightarrow> os_state block" where
  "chdir isdir d s =
     (if isdir d then (None, s\<lparr>cwd := d\<rparr>) else (Some (FileNotFoundError d), s))"

text \<open>
  The generator is suspended at the \<open>yield\<close> of line 164, or at that of line 169 with
  its local \<open>cwd\<close>.
\<close>

datatype switch_yield = Stayed | Switched string

text \<open>
  When \<open>os.chdir(root)\<close> raises inside the \<open>try\<close>, the \<open>finally\<close> clause runs
  at once and the generator never yields.
\<close>

definition switch_enter ::
  "(string \<Rightarrow> bool) \<Rightarrow> string option \<Rightarrow> os_state \<Rightarrow> (error + switch_yield) \<times> os_state" where
  "switch_enter isdir root s =
     (case root of
        None \<Rightarrow> (Inr Stayed, s)
      | Some r \<Rightarrow>
          (let cwd0 = cwd s
           in case chdir isdir r s of
                (None, s1) \<Rightarrow> (Inr (Switched cwd0), s1)
              | (Some e, s1) \<Rightarrow>
                  (case chdir isdir cwd0 s1 of
                     (None, s2) \<Rightarrow> (Inl e, s2)
                   | (Some e', s2) \<Rightarrow> (Inl e', s2))))"

definition switch_exit :: "(string \<Rightarrow> bool) \<Rightarrow> switch_yield \<Rightarrow> os_state block" where
  "switch_exit isdir t s =
     (case t of
        Stayed \<Rightarrow> (None, s)
      | Switched cwd0 \<Rightarrow> chdir isdir cwd0 s)"

definition switch_to_directory ::
  "(string \<Rightarrow> bool) \<Rightarrow> string option \<Rightarrow> os_state block \<Rightarrow> os_state block" where
  "switch_to_directory isdir root = contextmanager (switch_enter isdir root) (switch_exit isdir)"

subsection \<open>redirect_log\<close>

text \<open>
  A handler object of the logging module.  Handlers are compared by identity, which is
  \<open>h_id\<close>; \<open>h_file\<close> is the file name the handler was created with and
  \<open>h_formatter\<close> the format string of its formatter.
\<close>

record handler =
  h_id :: nat
  h_file :: string
  h_formatter :: "string option"

text \<open>
  The handler lists of the loggers, by logger name, and the identity the next object
  gets.
\<close>

record log_state =
  handlers :: "string \<Rightarrow> handler list"
  next_id :: nat

text \<open>
  \<open>logging.FileHandler(filename=name)\<close> opens the file: \<open>can_open\<close> says for which
  names that succeeds.
\<close>

definition FileHandler ::
  "(string \<Rightarrow> bool) \<Rightarrow> string \<Rightarrow> log_state \<Rightarrow> (error + handler) \<times> log_state" where
  "FileHandler can_open name s =
     (if can_open name
      then (Inr \<lparr>h_id = next_id s, h_file = name, h_formatter = None\<rparr>,
            s\<lparr>next_id := Suc (next_id s)\<rparr>)
      else (Inl (FileNotFoundError name), s))"

definition setFormatter :: "handler \<Rightarrow> string \<Rightarrow> handler" where
  "setFormatter h fmt = h\<lparr>h_formatter := Some fmt\<rparr>"

text \<open>\<open>hdlr in self.handlers\<close> and \<open>self.handlers.remove(hdlr)\<close>, by identity.\<close>

definition has_handler :: "handler list \<Rightarrow> handler \<Rightarrow> bool" where
  "has_handler hs h = list_ex (\<lambda>h'. h_id h' = h_id h) hs"

fun remove_handler :: "handler \<Rightarrow> handler list \<Rightarrow> handler list" where
  "remove_handler h [] = []"
| "remove_handler h (h' # hs) = (if h_id h' = h_id h then hs else h' # remove_handler h hs)"

definition addHandler :: "string \<Rightarrow> handler \<Rightarrow> log_state \<Rightarrow> log_state" where
  "addHandler logger hdlr s =
     (if has_handler (handlers s logger) hdlr then s
      else s\<lparr>handlers := (handlers s)(logger := handlers s logger @ [hdlr])\<rparr>)"

definition removeHandler :: "string \<Rightarrow> handler \<Rightarrow> log_state \<Rightarrow> log_state" where
  "removeHandler logger hdlr s =
     (if has_handler (handlers s logger) hdlr
      then s\<lparr>handlers := (handlers s)(logger := remove_handler hdlr (handlers s logger))\<rparr>
      else s)"

text \<open>\<open>logging.getLogger()\<close> is the root logger.\<close>

definition getLogger :: string where
  "getLogger = ''root''"

text \<open>The format of the formatter that \<open>redirect_log\<close> makes when it is given none.\<close>

definition default_format :: string where
  "default_format = ''%(asctime)s %(name)-12s %(levelname)-8s %(message)s''"

text \<open>
  \<open>job\<close> is the method \<open>job.fn\<close>.  The generator is suspended at the \<open>yield\<close> of
  line 122 with its locals \<open>logger\<close> and \<open>filehandler\<close>.
\<close>

definition redirect_log_enter ::
  "(string \<Rightarrow> bool) \<Rightarrow> (string \<Rightarrow> string) \<Rightarrow> string \<Rightarrow> string option \<Rightarrow> string option \<Rightarrow>
   log_state \<Rightarrow> (error + string \<times> handler) \<times> log_state" where
  "redirect_log_enter can_open job filename formatter_arg logger_arg s =
     (let formatter = (case formatter_arg of None \<Rightarrow> default_format | Some f \<Rightarrow> f);
          logger = (case logger_arg of None \<Rightarrow> getLogger | Some l \<Rightarrow> l)
      in case FileHandler can_open (job ''run.log'') s of
           (Inl e, s1) \<Rightarrow> (Inl e, s1)
         | (Inr filehandler0, s1) \<Rightarrow>
             (let filehandler = setFormatter filehandler0 formatter
              in (Inr (logger, filehandler), addHandler logger filehandler s1)))"

definition redirect_log_exit :: "string \<times> handler \<Rightarrow> log_state block" where
  "redirect_log_exit t s = (case t of (logger, filehandler) \<Rightarrow> (None, removeHandler logger filehandler s))"

definition redirect_log ::
  "(string \<Rightarrow> bool) \<Rightarrow> (string \<Rightarrow> string) \<Rightarrow> string \<Rightarrow> string option \<Rightarrow> string option \<Rightarrow>
   log_state block \<Rightarrow> log_state block" where
  "redirect_log can_open job filename formatter_arg logger_arg =
     contextmanager (redirect_log_enter can_open job filename formatter_arg logger_arg) redirect_log_exit"

section \<open>Notions of the specification and example inputs\<close>

text \<open>
  Field-wise equality of two contributors as the specification words it: all four
  attributes agree, the optional identifier included.
\<close>

definition same_fields :: "Contributor \<Rightarrow> Contributor \<Rightarrow> bool" where
  "same_fields a c =
     (last_names a = last_names c \<and> first_names a = first_names c \<and>
      affiliation a = affiliation c \<and> orcid a = orcid c)"

text \<open>The two person entries of the specification's scenario, and one without affiliation.\<close>

definition jane_doe :: citation where
  "jane_doe = [(''family-names'', ''Doe''), (''given-names'', ''Jane''), (''affiliation'', ''X'')]"

definition rick_roe :: citation where
  "rick_roe = [(''family-names'', ''Roe''), (''given-names'', ''Rick''), (''affiliation'', ''Y'')]"

definition no_affiliation :: citation where
  "no_affiliation = [(''family-names'', ''Poe''), (''given-names'', ''Pat'')]"

text \<open>
  A working directory with the three files, and stand-ins for the parsers and the
  serialiser that only tell the files and the arguments apart.
\<close>

definition demo_world :: world where
  "demo_world =
     \<lparr>files = [''CITATION.cff'' \<mapsto> ''A'', ''contributors.yaml'' \<mapsto> ''B'',
               ''.zenodo.json'' \<mapsto> ''{}''],
      stdout = []\<rparr>"

definition demo_load :: "citation list \<Rightarrow> citation list \<Rightarrow> string \<Rightarrow> error + cff" where
  "demo_load as cs b =
     (if b = ''A'' then Inr [(''authors'', as)]
      else if b = ''B'' then Inr [(''contributors'', cs)]
      else Inl (OtherError ''yaml''))"

definition demo_loads :: "string \<Rightarrow> error + json" where
  "demo_loads b = (if b = ''{}'' then Inr (JObj []) else Inl (OtherError ''json''))"

definition demo_dumps :: "nat \<Rightarrow> bool \<Rightarrow> json \<Rightarrow> string" where
  "demo_dumps indent sort_keys j = (if indent = 4 \<and> sort_keys then ''sorted-4'' else ''other'')"

text \<open>
  A file system without symbolic links, asked for paths that are absolute and normalised:
  \<open>os.path.realpath\<close> returns them as they are.
\<close>

definition plain_realpath :: "string \<Rightarrow> string" where
  "plain_realpath p = p"

text \<open>A scope body that does nothing, and one that raises.\<close>

definition pass :: "'s block" where
  "pass s = (None, s)"

definition failing :: "'s block" where
  "failing s = (Some (OtherError ''body''), s)"

text \<open>
  A job whose files live under \<open>/ws\<close>, and a logging state in which the root logger
  already has one handler.
\<close>

definition demo_job :: "string \<Rightarrow> string" where
  "demo_job name = ''/ws/'' @ name"

definition old_handler :: handler where
  "old_handler = \<lparr>h_id = 0, h_file = ''/var/log/app.log'', h_formatter = None\<rparr>"

definition demo_log_state :: log_state where
  "demo_log_state = \<lparr>handlers = (\<lambda>_. [])(''root'' := [old_handler]), next_id = 1\<rparr>"

section \<open>Properties of the contributor script\<close>

lemma same_fields_eq: "same_fields a c = (a = c)"
  by (cases a, cases c) (auto simp: same_fields_def)

lemma in_set_same_fields: "(c \<in> set authors) = list_ex (\<lambda>a. same_fields a c) authors"
  by (induction authors) (auto simp: same_fields_eq)

text \<open>
  Claim C1.  For all author lists \<open>A\<close> and contributor lists \<open>B\<close>, the merge succeeds on
  a metadata object; its \<open>creators\<close> field is \<open>A\<close> transformed entry by entry, in the
  order of \<open>A\<close>, and its \<open>contributors\<close> field is, in the order of \<open>B\<close>, the
  transformed entries of \<open>B\<close> that are field-wise equal to no entry of \<open>A\<close>.
\<close>

theorem merge_creators_contributors:
  "\<exists>z'. merge A B (JObj z) = Inr (JObj z') \<and>
     map_of z' ''creators'' = Some (JArr (map (\<lambda>a. json_of_creator (as_zenodo_creator a)) A)) \<and>
     map_of z' ''contributors'' =
       Some (JArr (map (\<lambda>c. json_of_creator (as_zenodo_creator c))
                    (filter (\<lambda>c. \<not> list_ex (\<lambda>a. same_fields a c) A) B)))"
  by (simp add: merge_def update_conv' creators_of_def contributors_of_def in_set_same_fields)

text \<open>
  \<open>lstrip\<close> removes the URL prefix, and no more, when the character after the prefix is
  not one of the prefix's own characters, as a digit is.
\<close>

lemma lstrip_prefix:
  "\<not> List.member chars c \<Longrightarrow> lstrip chars (p @ c # rest) = lstrip chars p @ c # rest"
  by (induction p) (simp_all add: lstrip_def)

lemma lstrip_self: "lstrip chars chars = []"
  by (simp add: lstrip_def)

lemma lstrip_orcid_prefix:
  assumes "\<not> List.member ''https://orcid.org/'' c"
  shows "lstrip ''https://orcid.org/'' (''https://orcid.org/'' @ c # rest) = c # rest"
proof -
  have "lstrip ''https://orcid.org/'' (''https://orcid.org/'' @ c # rest)
          = lstrip ''https://orcid.org/'' ''https://orcid.org/'' @ c # rest"
    using assms by (rule lstrip_prefix)
  then show ?thesis by (simp only: lstrip_self append_Nil)
qed

text \<open>
  Claim C5.  The claim asks for the identifier with exactly the prefix
  \<open>https://orcid.org/\<close> removed.  The code calls \<open>lstrip\<close>, which goes on removing
  every leading character that occurs in the prefix: of
  \<open>https://orcid.org/signin\<close> it keeps \<open>nin\<close>, not \<open>signin\<close>.
\<close>

theorem as_zenodo_creator_strips_characters:
  "as_zenodo_creator \<lparr>last_names = ''Doe'', first_names = ''Jane'', affiliation = ''X'',
                       orcid = Some ''https://orcid.org/signin''\<rparr>
   = [(''name'', ''Jane Doe''), (''affiliation'', ''X''), (''orcid'', ''nin'')]"
  by (simp add: as_zenodo_creator_def lstrip_def)

lemma cls_missing: "map_of kw ''affiliation'' = None \<Longrightarrow> isl (cls ln fn kw)"
  by (simp add: cls_def)

lemma from_citation_author_missing:
  assumes "map_of r ''family-names'' = None \<or> map_of r ''given-names'' = None
           \<or> map_of r ''affiliation'' = None"
  shows "isl (from_citation_author r)"
proof (cases "map_of r ''family-names''")
  case None
  then show ?thesis by (simp add: from_citation_author_def and_then_def pop_def)
next
  case (Some ln)
  note fam = this
  show ?thesis
  proof (cases "map_of r ''given-names''")
    case None
    with fam show ?thesis
      by (simp add: from_citation_author_def and_then_def pop_def delete_conv')
  next
    case (Some gn)
    with fam assms have "map_of r ''affiliation'' = None" by simp
    then have "map_of (AList.delete ''given-names'' (AList.delete ''family-names'' r))
                 ''affiliation'' = None"
      by (simp add: delete_conv')
    then have "isl (cls ln gn (AList.delete ''given-names'' (AList.delete ''family-names'' r)))"
      by (rule cls_missing)
    with fam Some show ?thesis
      by (simp add: from_citation_author_def and_then_def pop_def delete_conv')
  qed
qed

lemma from_citation_authors_missing:
  "r \<in> set rs \<Longrightarrow> isl (from_citation_author r) \<Longrightarrow> isl (from_citation_authors rs)"
  by (induction rs) (auto simp: and_then_def split: sum.splits)

lemma merged_record_missing:
  assumes "isl (from_citation_author r)"
    and "files w ''CITATION.cff'' = Some b1" "load b1 = Inr doc1"
      "map_of doc1 ''authors'' = Some rs1"
    and "files w ''contributors.yaml'' = Some b2" "load b2 = Inr doc2"
      "map_of doc2 ''contributors'' = Some rs2"
    and "r \<in> set rs1 \<or> r \<in> set rs2"
  shows "isl (merged_record load loads w)"
proof (cases "r \<in> set rs1")
  case True
  then have "isl (from_citation_authors rs1)"
    using assms(1) by (rule from_citation_authors_missing)
  then obtain e where "from_citation_authors rs1 = Inl e" by (auto simp: isl_def)
  then show ?thesis using assms(2-4)
    by (simp add: merged_record_def open_rb_def subscript_def and_then_def)
next
  case False
  then have "r \<in> set rs2" using assms(8) by simp
  then have "isl (from_citation_authors rs2)"
    using assms(1) by (rule from_citation_authors_missing)
  then obtain e where "from_citation_authors rs2 = Inl e" by (auto simp: isl_def)
  then show ?thesis using assms(2-7)
    by (simp add: merged_record_def open_rb_def subscript_def and_then_def split: sum.splits)
qed

lemma sync_error:
  "isl (merged_record load loads w) \<Longrightarrow> \<exists>e. sync load loads dumps in_place w = (Some e, w)"
  by (cases "merged_record load loads w") (simp_all add: sync_def)

text \<open>
  Claim C6.  For an entry that lacks \<open>family-names\<close>, \<open>given-names\<close> or
  \<open>affiliation\<close>, the construction of its \<open>Contributor\<close> raises, and so does the
  construction of every list that holds the entry.  When the loaded authors or the
  loaded contributors hold such an entry, \<open>sync\<close> ends with an exception and leaves the
  files and the standard output as they were: no merged record is written or printed.
\<close>

theorem missing_required_field_raises:
  assumes "map_of r ''family-names'' = None \<or> map_of r ''given-names'' = None
           \<or> map_of r ''affiliation'' = None"
  shows "isl (from_citation_author r)
       \<and> (r \<in> set rs \<longrightarrow> isl (from_citation_authors rs))
       \<and> (files w ''CITATION.cff'' = Some b1 \<and> load b1 = Inr doc1
            \<and> map_of doc1 ''authors'' = Some rs1
            \<and> files w ''contributors.yaml'' = Some b2 \<and> load b2 = Inr doc2
            \<and> map_of doc2 ''contributors'' = Some rs2
            \<and> (r \<in> set rs1 \<or> r \<in> set rs2)
          \<longrightarrow> (\<exists>e. sync load loads dumps in_place w = (Some e, w)))"
proof -
  have one: "isl (from_citation_author r)"
    using assms by (rule from_citation_author_missing)
  have many: "r \<in> set rs \<longrightarrow> isl (from_citation_authors rs)"
    using one by (blast intro: from_citation_authors_missing)
  have run: "\<exists>e. sync load loads dumps in_place w = (Some e, w)"
    if "files w ''CITATION.cff'' = Some b1" "load b1 = Inr doc1"
      "map_of doc1 ''authors'' = Some rs1"
      "files w ''contributors.yaml'' = Some b2" "load b2 = Inr doc2"
      "map_of doc2 ''contributors'' = Some rs2" "r \<in> set rs1 \<or> r \<in> set rs2"
    using merged_record_missing [OF one that] by (rule sync_error)
  from one many run show ?thesis by blast
qed

theorem missing_required_field_raises_witness:
  "isl (from_citation_author no_affiliation)
   \<and> isl (from_citation_authors [jane_doe, no_affiliation])
   \<and> (\<exists>e. sync (demo_load [jane_doe] [rick_roe, no_affiliation]) demo_loads demo_dumps True
             demo_world = (Some e, demo_world))"
  using missing_required_field_raises [of no_affiliation "[jane_doe, no_affiliation]"
      demo_world "''A''" "demo_load [jane_doe] [rick_roe, no_affiliation]"
      "[(''authors'', [jane_doe])]" "[jane_doe]" "''B''"
      "[(''contributors'', [rick_roe, no_affiliation])]" "[rick_roe, no_affiliation]"
      demo_loads demo_dumps True]
  by (simp add: no_affiliation_def demo_world_def demo_load_def)

text \<open>
  Claim C7.  Once the merged record is computed, \<open>sync\<close> with the in-place flag
  replaces the contents of \<open>.zenodo.json\<close> by \<open>json.dumps\<close> of the record with
  \<open>indent=4\<close> and \<open>sort_keys=True\<close>, and leaves every other file and the standard
  output as they were; without the flag it appends the same serialisation and a line feed
  to the standard output and leaves all files as they were.
\<close>

theorem sync_writes_or_prints:
  assumes "merged_record load loads w = Inr zenodo"
  shows "sync load loads dumps True w =
           (None, w\<lparr>files := (files w)(''.zenodo.json'' \<mapsto> dumps 4 True zenodo)\<rparr>)
       \<and> stdout (snd (sync load loads dumps True w)) = stdout w
       \<and> (\<forall>name. name \<noteq> ''.zenodo.json'' \<longrightarrow>
             files (snd (sync load loads dumps True w)) name = files w name)
       \<and> sync load loads dumps False w =
           (None, w\<lparr>stdout := stdout w @ dumps 4 True zenodo @ [CHR 0x0A]\<rparr>)
       \<and> files (snd (sync load loads dumps False w)) = files w"
  using assms by (simp add: sync_def)

lemma demo_merged_record:
  "merged_record (demo_load [jane_doe] [jane_doe, rick_roe]) demo_loads demo_world =
     Inr (JObj [(''creators'', JArr [JObj [(''name'', JStr ''Jane Doe''), (''affiliation'', JStr ''X'')]]),
                (''contributors'', JArr [JObj [(''name'', JStr ''Rick Roe''), (''affiliation'', JStr ''Y'')]])])"
  by (simp add: merged_record_def demo_load_def demo_loads_def demo_world_def open_rb_def
      subscript_def and_then_def from_citation_author_def pop_def cls_def jane_doe_def rick_roe_def
      merge_def creators_of_def contributors_of_def json_of_creator_def as_zenodo_creator_def)

theorem sync_writes_or_prints_witness:
  "files (snd (sync (demo_load [jane_doe] [jane_doe, rick_roe]) demo_loads demo_dumps True demo_world))
     ''.zenodo.json'' = Some ''sorted-4''
   \<and> stdout (snd (sync (demo_load [jane_doe] [jane_doe, rick_roe]) demo_loads demo_dumps True demo_world)) = []
   \<and> stdout (snd (sync (demo_load [jane_doe] [jane_doe, rick_roe]) demo_loads demo_dumps False demo_world))
       = ''sorted-4'' @ [CHR 0x0A]
   \<and> files (snd (sync (demo_load [jane_doe] [jane_doe, rick_roe]) demo_loads demo_dumps False demo_world))
        ''.zenodo.json'' = Some ''{}''"
  using sync_writes_or_prints [OF demo_merged_record, of demo_dumps]
  by (simp add: demo_dumps_def demo_world_def)

text \<open>
  Claim C8.  The scenario of the specification: with the author Jane Doe and the
  contributors Jane Doe and Rick Roe, the merged record has the creator
  \<open>Jane Doe\<close> of \<open>X\<close> and the one contributor \<open>Rick Roe\<close> of \<open>Y\<close>; the name is
  the first names, a space and the last names, and no \<open>orcid\<close> key is emitted.
\<close>

theorem merge_scenario:
  "and_then (from_citation_authors [jane_doe]) (\<lambda>authors.
   and_then (from_citation_authors [jane_doe, rick_roe]) (\<lambda>contributors.
   merge authors contributors (JObj [])))
   = Inr (JObj [(''creators'',
                   JArr [JObj [(''name'', JStr ''Jane Doe''), (''affiliation'', JStr ''X'')]]),
                (''contributors'',
                   JArr [JObj [(''name'', JStr ''Rick Roe''), (''affiliation'', JStr ''Y'')]])])"
  by (simp add: and_then_def from_citation_author_def pop_def cls_def jane_doe_def rick_roe_def
      merge_def creators_of_def contributors_of_def json_of_creator_def as_zenodo_creator_def)

section \<open>Properties of the scoped utilities\<close>

subsection \<open>The search path\<close>

text \<open>
  What the loop over the characters of the variable finds: a slash somewhere in the
  value, while the given path resolves to the root directory.
\<close>

lemma scan_pythonpath_iff:
  "scan_pythonpath realpath path v = (CHR ''/'' \<in> set v \<and> realpath ''/'' = path)"
  by (induction v) (auto simp: isabs_def)

lemma str_split_nonempty: "str_split sep s \<noteq> []"
  by (induction s) (auto split: list.splits)

lemma str_join_Cons: "ws \<noteq> [] \<Longrightarrow> str_join sep (w # ws) = w @ sep # str_join sep ws"
  by (cases ws) simp_all

lemma str_join_split: "str_join sep (str_split sep s) = s"
proof (induction s)
  case Nil
  show ?case by simp
next
  case (Cons c cs)
  show ?case
  proof (cases "c = sep")
    case True
    then show ?thesis using Cons by (simp add: str_join_Cons str_split_nonempty)
  next
    case False
    obtain w ws where sp: "str_split sep cs = w # ws"
      using str_split_nonempty [of sep cs] by (cases "str_split sep cs") auto
    have "str_join sep ((c # w) # ws) = c # str_join sep (w # ws)"
      by (cases ws) simp_all
    with False sp Cons show ?thesis by simp
  qed
qed

text \<open>Splitting at the colons and joining again: the path, a colon, the old value.\<close>

lemma prepended_value:
  "str_join (CHR '':'') (path # str_split (CHR '':'') v) = path @ CHR '':'' # v"
  by (simp add: str_join_Cons str_split_nonempty str_join_split)

text \<open>
  What the scope does restore, whatever its body does: an unset variable is unset after
  the scope, and a non-empty value the loop did not accept is put back.
\<close>

lemma add_path_unset_restored:
  assumes "environ s ''PYTHONPATH'' = None"
  shows "environ (snd (add_path_to_environment_pythonpath realpath path body s)) ''PYTHONPATH''
           = None"
  using assms
  by (auto simp: add_path_to_environment_pythonpath_def contextmanager_def add_path_enter_def
      add_path_exit_def setenv_def delenv_def split: prod.splits option.splits)

lemma add_path_value_restored:
  assumes "environ s ''PYTHONPATH'' = Some v" "v \<noteq> []"
    and "\<not> scan_pythonpath realpath (realpath path) v"
  shows "environ (snd (add_path_to_environment_pythonpath realpath path body s)) ''PYTHONPATH''
           = Some v"
  using assms
  by (cases v) (auto simp: add_path_to_environment_pythonpath_def contextmanager_def
      add_path_enter_def add_path_exit_def setenv_def split: prod.splits)

lemma add_path_prepends:
  assumes "environ s ''PYTHONPATH'' = Some v" "v \<noteq> []"
    and "\<not> scan_pythonpath realpath (realpath path) v"
  shows "add_path_enter realpath path s =
           (Inr (Prepended v), setenv ''PYTHONPATH'' (realpath path @ CHR '':'' # v) s)"
  using assms
  by (cases v)
    (simp_all add: add_path_enter_def Let_def prepended_value
      del: str_split.simps str_join.simps scan_pythonpath.simps)

text \<open>
  Claim C2.  The claim asks that a variable set to any string \<open>V\<close> is \<open>V\<close> again
  after the scope.  For the empty string the test \<open>if pythonpath\<close> fails, the code
  takes the branch written for an unset variable and deletes the variable on exit: it
  was set to the empty string before the scope and is unset after it.
\<close>

theorem add_path_deletes_empty_pythonpath:
  "environ \<lparr>environ = [''PYTHONPATH'' \<mapsto> ''''], cwd = ''/''\<rparr> ''PYTHONPATH'' = Some []
   \<and> environ (snd (add_path_to_environment_pythonpath plain_realpath ''/a'' pass
                    \<lparr>environ = [''PYTHONPATH'' \<mapsto> ''''], cwd = ''/''\<rparr>)) ''PYTHONPATH'' = None"
  by (simp add: add_path_to_environment_pythonpath_def contextmanager_def add_path_enter_def
      add_path_exit_def setenv_def delenv_def pass_def)

text \<open>
  Claim C3.  The claim asks that the variable is left alone exactly when one of its
  colon-separated entries is an absolute path with the canonical form of the given path.
  The loop runs over the characters of the value instead.  With the value \<open>/a:/b\<close> and
  the path \<open>/b\<close> the entry \<open>/b\<close> is there, and the code still prepends the path;
  with the value \<open>a/b\<close>, which has no absolute entry, and the path \<open>/\<close> the code
  leaves the variable alone.
\<close>

theorem add_path_scans_characters:
  "add_path_enter plain_realpath ''/b'' \<lparr>environ = [''PYTHONPATH'' \<mapsto> ''/a:/b''], cwd = ''/''\<rparr>
     = (Inr (Prepended ''/a:/b''),
        \<lparr>environ = [''PYTHONPATH'' \<mapsto> ''/b:/a:/b''], cwd = ''/''\<rparr>)
   \<and> add_path_enter plain_realpath ''/'' \<lparr>environ = [''PYTHONPATH'' \<mapsto> ''a/b''], cwd = ''/''\<rparr>
     = (Inr Already_There, \<lparr>environ = [''PYTHONPATH'' \<mapsto> ''a/b''], cwd = ''/''\<rparr>)"
  by (simp add: add_path_enter_def setenv_def isabs_def Let_def plain_realpath_def)

subsection \<open>The working directory\<close>

text \<open>
  Claim C4.  Let the process be in a directory \<open>D\<close>.  Without a target the scope is
  its body and changes nothing itself.  With a target \<open>T\<close> the working directory is
  \<open>D\<close> again after the scope in every case; when \<open>T\<close> is a directory the body starts
  with the working directory \<open>T\<close>, the scope ends as the body ended (returning or
  raising), and only the working directory is put back; when \<open>T\<close> is no directory the
  body does not run and the state is as before.
\<close>

theorem switch_to_directory_restores:
  assumes "isdir (cwd s)"
  shows "switch_to_directory isdir None body s = body s
       \<and> cwd (snd (switch_to_directory isdir (Some T) body s)) = cwd s
       \<and> (isdir T \<longrightarrow>
            switch_enter isdir (Some T) s = (Inr (Switched (cwd s)), s\<lparr>cwd := T\<rparr>)
          \<and> switch_to_directory isdir (Some T) body s =
              (fst (body (s\<lparr>cwd := T\<rparr>)), (snd (body (s\<lparr>cwd := T\<rparr>)))\<lparr>cwd := cwd s\<rparr>))
       \<and> (\<not> isdir T \<longrightarrow>
            switch_to_directory isdir (Some T) body s = (Some (FileNotFoundError T), s))"
  using assms
  by (auto simp: switch_to_directory_def contextmanager_def switch_enter_def switch_exit_def
      chdir_def split: prod.splits option.splits)

theorem switch_to_directory_restores_witness:
  "switch_to_directory (\<lambda>d. d = ''/home'' \<or> d = ''/tmp'') None failing
      \<lparr>environ = Map.empty, cwd = ''/home''\<rparr>
     = (Some (OtherError ''body''), \<lparr>environ = Map.empty, cwd = ''/home''\<rparr>)
   \<and> switch_enter (\<lambda>d. d = ''/home'' \<or> d = ''/tmp'') (Some ''/tmp'')
      \<lparr>environ = Map.empty, cwd = ''/home''\<rparr>
     = (Inr (Switched ''/home''), \<lparr>environ = Map.empty, cwd = ''/tmp''\<rparr>)
   \<and> switch_to_directory (\<lambda>d. d = ''/home'' \<or> d = ''/tmp'') (Some ''/tmp'') failing
      \<lparr>environ = Map.empty, cwd = ''/home''\<rparr>
     = (Some (OtherError ''body''), \<lparr>environ = Map.empty, cwd = ''/home''\<rparr>)
   \<and> switch_to_directory (\<lambda>d. d = ''/home'' \<or> d = ''/tmp'') (Some ''/tmp'') pass
      \<lparr>environ = Map.empty, cwd = ''/home''\<rparr>
     = (None, \<lparr>environ = Map.empty, cwd = ''/home''\<rparr>)"
  using switch_to_directory_restores [of "\<lambda>d. d = ''/home'' \<or> d = ''/tmp''"
      "\<lparr>environ = Map.empty, cwd = ''/home''\<rparr>" failing "''/tmp''"]
    switch_to_directory_restores [of "\<lambda>d. d = ''/home'' \<or> d = ''/tmp''"
      "\<lparr>environ = Map.empty, cwd = ''/home''\<rparr>" pass "''/tmp''"]
  by (simp add: failing_def pass_def)

subsection \<open>The log handlers\<close>

lemma remove_handler_append_fresh:
  "\<forall>h'\<in>set hs. h_id h' \<noteq> h_id h \<Longrightarrow> remove_handler h (hs @ [h]) = hs"
  by (induction hs) auto

lemma has_handler_fresh:
  "\<forall>h'\<in>set hs. h_id h' \<noteq> h_id h \<Longrightarrow> \<not> has_handler hs h"
  by (induction hs) (auto simp: has_handler_def)

lemma has_handler_append_self: "has_handler (hs @ [h]) h"
  by (induction hs) (auto simp: has_handler_def)

lemma redirect_log_enter_fresh:
  assumes "can_open (job ''run.log'')"
    and "\<forall>h'\<in>set (handlers s (case logger_arg of None \<Rightarrow> getLogger | Some l \<Rightarrow> l)).
           h_id h' \<noteq> next_id s"
  shows "redirect_log_enter can_open job filename formatter_arg logger_arg s =
           (let lg = (case logger_arg of None \<Rightarrow> getLogger | Some l \<Rightarrow> l);
                h = \<lparr>h_id = next_id s, h_file = job ''run.log'',
                     h_formatter =
                       Some (case formatter_arg of None \<Rightarrow> default_format | Some f \<Rightarrow> f)\<rparr>
            in (Inr (lg, h),
                s\<lparr>next_id := Suc (next_id s),
                  handlers := (handlers s)(lg := handlers s lg @ [h])\<rparr>))"
proof -
  have "\<not> has_handler (handlers s (case logger_arg of None \<Rightarrow> getLogger | Some l \<Rightarrow> l))
          \<lparr>h_id = next_id s, h_file = job ''run.log'',
           h_formatter = Some (case formatter_arg of None \<Rightarrow> default_format | Some f \<Rightarrow> f)\<rparr>"
    using assms(2) by (intro has_handler_fresh) simp
  then show ?thesis using assms(1)
    by (simp add: redirect_log_enter_def FileHandler_def setFormatter_def addHandler_def Let_def)
qed

text \<open>
  Claim C9.  Let \<open>lg\<close> be the chosen logger (the root logger when none is given), let
  the log file be one that can be opened, and let \<open>h\<close> be the new file handler, whose
  identity no handler of \<open>lg\<close> has.  Entering the scope appends \<open>h\<close>, and nothing
  else, to the handlers of \<open>lg\<close> and touches no other logger.  When the body ends,
  returning or raising, the scope ends the same way after removing \<open>h\<close> from the
  handlers of \<open>lg\<close>; the handlers of the other loggers are as the body left them, and
  when the body left the handler lists alone they are all as before the scope.
\<close>

theorem redirect_log_handlers:
  assumes "can_open (job ''run.log'')"
    and "lg = (case logger_arg of None \<Rightarrow> getLogger | Some l \<Rightarrow> l)"
    and "h = \<lparr>h_id = next_id s, h_file = job ''run.log'',
              h_formatter = Some (case formatter_arg of None \<Rightarrow> default_format | Some f \<Rightarrow> f)\<rparr>"
    and "\<forall>h'\<in>set (handlers s lg). h_id h' \<noteq> next_id s"
    and "redirect_log_enter can_open job filename formatter_arg logger_arg s = (t, s1)"
    and "body s1 = (r, s2)"
  shows "t = Inr (lg, h)
       \<and> handlers s1 = (handlers s)(lg := handlers s lg @ [h])
       \<and> redirect_log can_open job filename formatter_arg logger_arg body s
           = (r, removeHandler lg h s2)
       \<and> (\<forall>lg'. lg' \<noteq> lg \<longrightarrow> handlers (removeHandler lg h s2) lg' = handlers s2 lg')
       \<and> (handlers s2 = handlers s1 \<longrightarrow> handlers (removeHandler lg h s2) = handlers s)"
proof -
  have "redirect_log_enter can_open job filename formatter_arg logger_arg s =
          (Inr (lg, h),
           s\<lparr>next_id := Suc (next_id s), handlers := (handlers s)(lg := handlers s lg @ [h])\<rparr>)"
    using redirect_log_enter_fresh [where can_open = can_open and job = job and s = s
        and logger_arg = logger_arg and filename = filename and formatter_arg = formatter_arg]
      assms(1,4) unfolding assms(2,3) by (simp add: Let_def)
  with assms(5) have enter: "t = Inr (lg, h)"
    "s1 = s\<lparr>next_id := Suc (next_id s), handlers := (handlers s)(lg := handlers s lg @ [h])\<rparr>"
    by simp_all
  have run: "redirect_log can_open job filename formatter_arg logger_arg body s
               = (r, removeHandler lg h s2)"
    using assms(5,6) enter(1)
    by (simp add: redirect_log_def contextmanager_def redirect_log_exit_def)
  have other: "\<forall>lg'. lg' \<noteq> lg \<longrightarrow> handlers (removeHandler lg h s2) lg' = handlers s2 lg'"
    by (simp add: removeHandler_def)
  have restored: "handlers (removeHandler lg h s2) = handlers s" if kept: "handlers s2 = handlers s1"
  proof -
    have hs: "handlers s2 lg = handlers s lg @ [h]" using kept enter(2) by simp
    have fresh: "\<forall>h'\<in>set (handlers s lg). h_id h' \<noteq> h_id h" using assms(3,4) by simp
    have "handlers (removeHandler lg h s2) = (handlers s2)(lg := handlers s lg)"
      using hs by (simp add: removeHandler_def has_handler_append_self
          remove_handler_append_fresh [OF fresh])
    also have "\<dots> = handlers s" using kept enter(2) by (simp add: fun_eq_iff)
    finally show ?thesis .
  qed
  from enter run other restored show ?thesis by simp
qed

theorem redirect_log_handlers_witness:
  "handlers (snd (redirect_log_enter (\<lambda>_. True) demo_job ''other.log'' None None demo_log_state))
     ''root''
     = [old_handler, \<lparr>h_id = 1, h_file = ''/ws/run.log'', h_formatter = Some default_format\<rparr>]
   \<and> fst (redirect_log (\<lambda>_. True) demo_job ''other.log'' None None failing demo_log_state)
     = Some (OtherError ''body'')
   \<and> handlers (snd (redirect_log (\<lambda>_. True) demo_job ''other.log'' None None failing demo_log_state))
     = handlers demo_log_state"
proof -
  let ?h = "\<lparr>h_id = 1, h_file = ''/ws/run.log'', h_formatter = Some default_format\<rparr>"
  let ?s1 = "\<lparr>handlers = (\<lambda>_. [])(''root'' := [old_handler, ?h]), next_id = 2\<rparr>"
  have p1: "(\<lambda>_. True) (demo_job ''run.log'')" by simp
  have p2: "''root'' = (case None of None \<Rightarrow> getLogger | Some l \<Rightarrow> l)"
    by (simp add: getLogger_def)
  have p3: "?h = \<lparr>h_id = next_id demo_log_state, h_file = demo_job ''run.log'',
                  h_formatter = Some (case None of None \<Rightarrow> default_format | Some f \<Rightarrow> f)\<rparr>"
    by (simp add: demo_log_state_def demo_job_def)
  have p4: "\<forall>h'\<in>set (handlers demo_log_state ''root''). h_id h' \<noteq> next_id demo_log_state"
    by (simp add: demo_log_state_def old_handler_def)
  have p5: "redirect_log_enter (\<lambda>_. True) demo_job ''other.log'' None None demo_log_state
              = (Inr (''root'', ?h), ?s1)"
    by (simp add: redirect_log_enter_def FileHandler_def setFormatter_def addHandler_def
        has_handler_def getLogger_def demo_log_state_def demo_job_def old_handler_def Let_def
        numeral_2_eq_2)
  have p6: "failing ?s1 = (Some (OtherError ''body''), ?s1)"
    by (simp add: failing_def)
  from redirect_log_handlers [where can_open = "\<lambda>_. True" and job = demo_job
      and lg = "''root''" and logger_arg = None and h = ?h and s = demo_log_state
      and formatter_arg = None and filename = "''other.log''"
      and t = "Inr (''root'', ?h)" and ?s1.0 = ?s1 and body = failing
      and r = "Some (OtherError ''body'')" and ?s2.0 = ?s1, OF p1 p2 p3 p4 p5 p6]
  show ?thesis using p5 by (simp add: demo_log_state_def)
qed

lemma redirect_log_enter_filename:
  "redirect_log_enter can_open job fname formatter_arg logger_arg =
   redirect_log_enter can_open job fname' formatter_arg logger_arg"
  by (simp add: fun_eq_iff redirect_log_enter_def)

text \<open>
  Claim C10.  The scope does not depend on its parameter \<open>filename\<close>: it is the same
  for any two values of it, and the handler it attaches is created for the file
  \<open>job.fn('run.log')\<close> (when that file cannot be opened the scope raises and attaches
  nothing).
\<close>

theorem redirect_log_ignores_filename:
  "redirect_log can_open job fname formatter_arg logger_arg =
     redirect_log can_open job fname' formatter_arg logger_arg
   \<and> map_sum id (\<lambda>t. h_file (snd t))
       (fst (redirect_log_enter can_open job fname formatter_arg logger_arg s))
       = (if can_open (job ''run.log'') then Inr (job ''run.log'')
          else Inl (FileNotFoundError (job ''run.log'')))"
  by (simp add: redirect_log_def
      redirect_log_enter_filename [of can_open job fname formatter_arg logger_arg fname']
      redirect_log_enter_def FileHandler_def setFormatter_def Let_def)

end
